theory Spec2Isabelle
  imports Complex_Main "HOL-Library.Stream"
begin

section \<open>Python strings\<close>

text \<open>
  Strings are modelled as ASCII text.  \<open>str.lower\<close> maps the letters A-Z to a-z and
  leaves every other character alone (Python also lowers cased letters beyond ASCII;
  those are outside the model).
\<close>

definition lower_char :: "char \<Rightarrow> char" where
  "lower_char c =
     (case map_of (zip ''ABCDEFGHIJKLMNOPQRSTUVWXYZ'' ''abcdefghijklmnopqrstuvwxyz'') c of
        Some d \<Rightarrow> d
      | None \<Rightarrow> c)"

definition lower :: "string \<Rightarrow> string" where
  "lower s = map lower_char s"

text \<open>\<open>starts_with kw s\<close>: \<open>s.startswith(kw)\<close>.\<close>

fun starts_with :: "string \<Rightarrow> string \<Rightarrow> bool" where
  "starts_with [] s = True"
| "starts_with (k # ks) [] = False"
| "starts_with (k # ks) (c # cs) = (k = c \<and> starts_with ks cs)"

text \<open>\<open>str_in kw s\<close>: the Python test \<open>kw in s\<close> on strings (substring search).\<close>

fun str_in :: "string \<Rightarrow> string \<Rightarrow> bool" where
  "str_in kw [] = (kw = [])"
| "str_in kw (c # cs) = (starts_with kw (c # cs) \<or> str_in kw cs)"

text \<open>\<open>any_in kws s\<close>: \<open>any(word in s for word in kws)\<close>.\<close>

definition any_in :: "string list \<Rightarrow> string \<Rightarrow> bool" where
  "any_in kws s = list_ex (\<lambda>kw. str_in kw s) kws"

text \<open>\<open>replace_Z s\<close>: \<open>s.replace('Z', '+00:00')\<close>.\<close>

definition replace_Z :: "string \<Rightarrow> string" where
  "replace_Z s = concat (map (\<lambda>c. if c = CHR ''Z'' then ''+00:00'' else [c]) s)"

section \<open>Document classification (s3\_client.py)\<close>

text \<open>\<open>S3Client._classify_document_type\<close>: the \<open>if\<close>/\<open>elif\<close> chain in source order.\<close>

definition classify_document_type :: "string \<Rightarrow> string" where
  "classify_document_type filename =
     (let filename_lower = lower filename in
      if any_in [''passport'', ''visa'', ''id''] filename_lower then ''identification''
      else if any_in [''ticket'', ''boarding'', ''flight''] filename_lower then ''flight_document''
      else if any_in [''hotel'', ''reservation'', ''booking''] filename_lower then ''accommodation''
      else if any_in [''insurance'', ''policy''] filename_lower then ''insurance''
      else if any_in [''itinerary'', ''plan'', ''schedule''] filename_lower then ''itinerary''
      else ''other'')"

section \<open>Document classification: first match in a fixed order\<close>

text \<open>
  The classifier as the specification words it: a table of categories with their keyword
  sets, tested in order; the first category one of whose keywords occurs in the lowered
  file name wins, and \<open>other\<close> is the answer when none does.
\<close>

definition document_categories :: "(string \<times> string list) list" where
  "document_categories =
     [(''identification'', [''passport'', ''visa'', ''id'']),
      (''flight_document'', [''ticket'', ''boarding'', ''flight'']),
      (''accommodation'', [''hotel'', ''reservation'', ''booking'']),
      (''insurance'', [''insurance'', ''policy'']),
      (''itinerary'', [''itinerary'', ''plan'', ''schedule''])]"

definition mentions_one_of :: "string list \<Rightarrow> string \<Rightarrow> bool" where
  "mentions_one_of kws s \<longleftrightarrow> (\<exists>kw ps ss. kw \<in> set kws \<and> s = ps @ kw @ ss)"

fun first_matching_category :: "(string \<times> string list) list \<Rightarrow> string \<Rightarrow> string" where
  "first_matching_category [] s = ''other''"
| "first_matching_category ((category, kws) # rest) s =
     (if mentions_one_of kws s then category else first_matching_category rest s)"

section \<open>Time, floats and the outside world\<close>

text \<open>
  A \<open>datetime\<close> is the number of microseconds its calendar fields denote, together
  with its UTC offset (also in microseconds) when it is timezone-aware.  A \<open>timedelta\<close>
  is a number of microseconds.  Where the source stores \<open>isoformat()\<close> text of a clock
  reading, the model stores the reading itself.
\<close>

record pydatetime =
  wall :: int
  utcoffset :: "int option"

datatype py_error = TypeError | ValueError | KeyError | AttributeError

text \<open>\<open>timedelta(hours=h)\<close>.\<close>

definition hours :: "int \<Rightarrow> int" where
  "hours h = h * 3600000000"

text \<open>
  \<open>a - b\<close> on datetimes: two naive values subtract field-wise, two aware values
  subtract as instants, and mixing the two raises \<open>TypeError\<close>.
\<close>

definition dt_sub :: "pydatetime \<Rightarrow> pydatetime \<Rightarrow> py_error + int" where
  "dt_sub a b =
     (case (utcoffset a, utcoffset b) of
        (None, None) \<Rightarrow> Inr (wall a - wall b)
      | (Some oa, Some ob) \<Rightarrow> Inr ((wall a - oa) - (wall b - ob))
      | (None, Some ob) \<Rightarrow> Inl TypeError
      | (Some oa, None) \<Rightarrow> Inl TypeError)"


text \<open>
  Binary floating point, as far as the departure message needs it: \<open>to_double\<close> is the
  binary64 number nearest to a rational (ties to even; subnormals and overflow are
  outside the range of any \<open>timedelta\<close> and are not modelled), so that Python's
  \<open>a / b\<close> is \<open>to_double (a / b)\<close>.
\<close>

definition round_half_even :: "rat \<Rightarrow> int" where
  "round_half_even x =
     (let f = \<lfloor>x\<rfloor>; r = x - of_int f in
      if r < 1 / 2 then f
      else if 1 / 2 < r then f + 1
      else if even f then f else f + 1)"

fun bit_length :: "nat \<Rightarrow> nat" where
  "bit_length n = (if n = 0 then 0 else Suc (bit_length (n div 2)))"

definition pow2 :: "int \<Rightarrow> rat" where
  "pow2 e = (if 0 \<le> e then 2 ^ nat e else 1 / 2 ^ nat (- e))"

text \<open>The exponent \<open>e\<close> with \<open>2 ^ e \<le> x < 2 ^ (e + 1)\<close>, for positive \<open>x\<close>.\<close>

definition binary_exponent :: "rat \<Rightarrow> int" where
  "binary_exponent x =
     (if 1 \<le> x then int (bit_length (nat \<lfloor>x\<rfloor>)) - 1
      else - int (bit_length (nat (\<lceil>1 / x\<rceil> - 1))))"

definition to_double :: "rat \<Rightarrow> rat" where
  "to_double x =
     (if x = 0 then 0
      else let ulp = pow2 (binary_exponent \<bar>x\<bar> - 52);
               m = of_int (round_half_even (\<bar>x\<bar> / ulp)) * ulp
           in if x < 0 then - m else m)"

text \<open>\<open>timedelta.total_seconds()\<close>.\<close>

definition total_seconds :: "int \<Rightarrow> rat" where
  "total_seconds td = to_double (of_int td / 1000000)"

fun digits :: "nat \<Rightarrow> string" where
  "digits n =
     (if n < 10 then [''0123456789'' ! n]
      else digits (n div 10) @ [''0123456789'' ! (n mod 10)])"

text \<open>\<open>f"{x:.1f}"\<close>: one decimal, the exact binary value rounded half to even.\<close>

definition format_1f :: "rat \<Rightarrow> string" where
  "format_1f x =
     (let t = nat (round_half_even (\<bar>x\<bar> * 10)) in
      (if x < 0 then ''-'' else []) @ digits (t div 10) @ ''.'' @ digits (t mod 10))"

text \<open>
  \<open>date.isoformat()\<close> of the day a timestamp falls on, with the timestamp counted from
  1970-01-01T00:00:00: the proleptic Gregorian date as \<open>YYYY-MM-DD\<close>.
\<close>

definition civil_from_days :: "int \<Rightarrow> int \<times> int \<times> int" where
  "civil_from_days z0 =
     (let z = z0 + 719468;
          era = z div 146097;
          doe = z mod 146097;
          yoe = (doe - doe div 1460 + doe div 36524 - doe div 146096) div 365;
          doy = doe - (365 * yoe + yoe div 4 - yoe div 100);
          mp = (5 * doy + 2) div 153;
          d = doy - (153 * mp + 2) div 5 + 1;
          m = (if mp < 10 then mp + 3 else mp - 9);
          y = yoe + era * 400 + (if m \<le> 2 then 1 else 0)
      in (y, m, d))"

definition zero_pad :: "nat \<Rightarrow> int \<Rightarrow> string" where
  "zero_pad width n = (let ds = digits (nat n) in replicate (width - length ds) CHR ''0'' @ ds)"

definition date_isoformat :: "int \<Rightarrow> string" where
  "date_isoformat t =
     (case civil_from_days (t div 86400000000) of
        (y, m, d) \<Rightarrow> zero_pad 4 y @ ''-'' @ zero_pad 2 m @ ''-'' @ zero_pad 2 d)"

text \<open>
  The world outside the program: the successive readings of \<open>datetime.utcnow()\<close>, the
  successive results of \<open>random.random()\<close>, the successive draws behind
  \<open>random.choice\<close>, and for each successive DynamoDB request whether it fails with a
  \<open>ClientError\<close>.  Every read consumes one element.  Clock reads whose value only
  feeds a field the model leaves out are not modelled.
\<close>

record world =
  clock :: "int stream"
  rng :: "rat stream"
  picks :: "nat stream"
  faults :: "bool stream"

definition utcnow :: "world \<Rightarrow> pydatetime \<times> world" where
  "utcnow w = (\<lparr>wall = shd (clock w), utcoffset = None\<rparr>, w\<lparr>clock := stl (clock w)\<rparr>)"

definition random :: "world \<Rightarrow> rat \<times> world" where
  "random w = (shd (rng w), w\<lparr>rng := stl (rng w)\<rparr>)"

text \<open>\<open>random.choice(xs)\<close> on a non-empty list.\<close>

definition choice :: "'a list \<Rightarrow> world \<Rightarrow> 'a \<times> world" where
  "choice xs w = (xs ! (shd (picks w) mod length xs), w\<lparr>picks := stl (picks w)\<rparr>)"

section \<open>Alerts (alerts\_handler.py)\<close>

text \<open>
  An alert is the dictionary the evaluators build.  The keys every alert has are fields;
  the keys particular to an alert type (\<open>booking_id\<close>, \<open>location\<close>, \<open>date\<close>, ...) are
  kept, in source order, in \<open>extra\<close>, with \<open>None\<close> for a Python \<open>None\<close> value.
\<close>

record alert =
  alert_type :: string
  priority :: int
  title :: string
  message :: string
  extra :: "(string \<times> string option) list"
  action_required :: bool
  created_at :: int

text \<open>
  A booking: the keys the flight evaluator reads.  \<open>None\<close> is an absent key.
\<close>

record flight_details =
  departure_date :: "string option"
  flight_number :: "string option"

record booking =
  booking_type :: "string option"
  status :: "string option"
  details :: "flight_details option"
  booking_id :: "string option"

text \<open>\<open>d.get(key, default)\<close> on an optional field.\<close>

definition get_or :: "'a option \<Rightarrow> 'a \<Rightarrow> 'a" where
  "get_or v d = (case v of None \<Rightarrow> d | Some x \<Rightarrow> x)"

text \<open>
  One pass of the loop body of \<open>check_flight_alerts\<close> for a booking that is a confirmed
  flight: the alerts it appends, or the exception it raises.  \<open>fromisoformat\<close> is
  \<open>datetime.fromisoformat\<close> (\<open>None\<close> when it raises).
\<close>

definition flight_booking_alerts ::
  "(string \<Rightarrow> pydatetime option) \<Rightarrow> world \<Rightarrow> booking \<Rightarrow> (py_error + alert list) \<times> world" where
  "flight_booking_alerts fromisoformat w b =
     (let fd = get_or (details b) \<lparr>departure_date = None, flight_number = None\<rparr>;
          fnum = get_or (flight_number fd) ''N/A''
      in case departure_date fd of
           None \<Rightarrow> (Inr [], w)
         | Some d \<Rightarrow>
             if d = [] then (Inr [], w)
             else case fromisoformat (replace_Z d) of
               None \<Rightarrow> (Inr [], w)
             | Some dept_datetime \<Rightarrow>
                 let (now, w1) = utcnow w in
                 case dt_sub dept_datetime now of
                   Inl e \<Rightarrow> (Inl e, w1)
                 | Inr time_diff \<Rightarrow>
                     let timing =
                           (if hours 22 \<le> time_diff \<and> time_diff \<le> hours 24 then
                              [\<lparr>alert_type = ''flight_checkin_reminder'', priority = 3,
                                title = ''Flight Check-in Available'',
                                message = ''Check-in is now available for your flight '' @ fnum,
                                extra = [(''booking_id'', booking_id b)],
                                action_required = True, created_at = wall now\<rparr>]
                            else if hours 2 \<le> time_diff \<and> time_diff \<le> hours 3 then
                              [\<lparr>alert_type = ''departure_reminder'', priority = 4,
                                title = ''Upcoming Flight Departure'',
                                message = ''Your flight '' @ fnum @ '' departs in approximately ''
                                  @ format_1f (to_double (total_seconds time_diff / 3600))
                                  @ '' hours'',
                                extra = [(''booking_id'', booking_id b)],
                                action_required = False, created_at = wall now\<rparr>]
                            else [])
                     in if time_diff \<le> hours 6 \<and> hours 0 \<le> time_diff then
                          let (u, w2) = random w1 in
                          if u < 1 / 10 then
                            let (gate, w3) = choice [''A12'', ''B23'', ''C34'', ''D45''] w2 in
                            (Inr (timing @
                               [\<lparr>alert_type = ''gate_change'', priority = 5,
                                 title = ''Gate Change Alert'',
                                 message = ''Gate change for flight '' @ fnum @ ''. New gate: '' @ gate,
                                 extra = [(''booking_id'', booking_id b)],
                                 action_required = True, created_at = wall now\<rparr>]), w3)
                          else (Inr timing, w2)
                        else (Inr timing, w1))"

text \<open>
  The loop of \<open>check_flight_alerts\<close>, with the alerts collected so far.  An exception
  leaves the loop for the \<open>except\<close> clause, which logs it; the alerts collected before
  it are returned.
\<close>

fun flight_loop ::
  "(string \<Rightarrow> pydatetime option) \<Rightarrow> world \<Rightarrow> alert list \<Rightarrow> booking list \<Rightarrow> alert list \<times> world" where
  "flight_loop fromisoformat w alerts [] = (alerts, w)"
| "flight_loop fromisoformat w alerts (b # bs) =
     (if booking_type b \<noteq> Some ''flight'' \<or> status b \<noteq> Some ''confirmed''
      then flight_loop fromisoformat w alerts bs
      else case flight_booking_alerts fromisoformat w b of
             (Inl e, w') \<Rightarrow> (alerts, w')
           | (Inr new, w') \<Rightarrow> flight_loop fromisoformat w' (alerts @ new) bs)"

definition check_flight_alerts ::
  "(string \<Rightarrow> pydatetime option) \<Rightarrow> world \<Rightarrow> booking list \<Rightarrow> alert list \<times> world" where
  "check_flight_alerts fromisoformat w bookings = flight_loop fromisoformat w [] bookings"

text \<open>
  A confirmed flight booking with departure text \<open>d\<close>, for stating facts about the
  flight evaluator.
\<close>

definition confirmed_flight :: "string \<Rightarrow> string option \<Rightarrow> string option \<Rightarrow> booking" where
  "confirmed_flight d fnum bid =
     \<lparr>booking_type = Some ''flight'', status = Some ''confirmed'',
      details = Some \<lparr>departure_date = Some d, flight_number = fnum\<rparr>, booking_id = bid\<rparr>"

section \<open>Upstream adapters (api\_clients)\<close>

text \<open>
  What a live provider call can end in.  In each \<open>_get_<provider>_...\<close> method the
  request, \<open>raise_for_status()\<close> and the decoding of the payload all sit inside one
  \<open>try\<close>; the model takes the outcome of the request and decoding as an input and
  keeps the control flow around it.
\<close>

datatype upstream_error = TransportError | HttpStatusError nat | ParseFailure

text \<open>The slice of a normalised forecast day the evaluators read.\<close>

record conditions =
  description :: "string option"
  icon :: "string option"

record day_forecast =
  forecast_date :: "string option"
  conditions :: "conditions option"

record weather_data =
  location_name :: string
  forecast :: "day_forecast list"
  weather_source :: string

text \<open>An article as a provider returns it, and as the News adapter hands it on.\<close>

record raw_article =
  raw_title :: "string option"
  raw_description :: "string option"
  raw_url :: "string option"
  raw_source_name :: "string option"
  publishedAt :: "string option"

record guardian_result =
  webTitle :: "string option"
  standfirst :: "string option"
  webUrl :: "string option"

record article =
  art_title :: "string option"
  art_description :: "string option"
  art_url :: "string option"
  art_source :: "string option"
  relevance_score :: rat
  category :: string

record news_data =
  news_location :: string
  articles :: "article list"
  total_found :: nat
  news_source :: string

record document =
  doc_filename :: "string option"
  doc_type :: "string option"

text \<open>
  The providers: for each live call the daily forecasts or the articles it decodes, or the
  error that ends it; for S3 the user's documents, or the \<open>ClientError\<close>.
\<close>

record upstream =
  openweather_forecast :: "string \<Rightarrow> int \<Rightarrow> upstream_error + day_forecast list"
  weatherapi_forecast :: "string \<Rightarrow> int \<Rightarrow> upstream_error + day_forecast list"
  newsapi_everything :: "string \<Rightarrow> int \<Rightarrow> upstream_error + raw_article list"
  guardian_search :: "string \<Rightarrow> int \<Rightarrow> upstream_error + guardian_result list"
  s3_objects :: "string \<Rightarrow> upstream_error + document list"

text \<open>The credentials read from the environment at start-up (\<open>None\<close>: variable unset).\<close>

record weather_api =
  openweather_api_key :: "string option"
  weatherapi_key :: "string option"

record news_api =
  newsapi_key :: "string option"
  guardian_api_key :: "string option"

text \<open>\<open>if key:\<close> on an optional string.\<close>

definition truthy :: "string option \<Rightarrow> bool" where
  "truthy k = (case k of None \<Rightarrow> False | Some s \<Rightarrow> s \<noteq> [])"

subsection \<open>weather\_api.py\<close>

definition get_openweather_forecast :: "upstream \<Rightarrow> string \<Rightarrow> int \<Rightarrow> weather_data option" where
  "get_openweather_forecast up location days =
     (case openweather_forecast up location days of
        Inr daily_forecasts \<Rightarrow>
          Some \<lparr>location_name = location, forecast = daily_forecasts,
                weather_source = ''openweathermap''\<rparr>
      | Inl e \<Rightarrow> None)"

definition get_weatherapi_forecast :: "upstream \<Rightarrow> string \<Rightarrow> int \<Rightarrow> weather_data option" where
  "get_weatherapi_forecast up location days =
     (case weatherapi_forecast up location days of
        Inr daily_forecasts \<Rightarrow>
          Some \<lparr>location_name = location, forecast = daily_forecasts,
                weather_source = ''weatherapi''\<rparr>
      | Inl e \<Rightarrow> None)"

text \<open>
  The loop of \<open>_get_mock_forecast\<close> over \<open>range(days)\<close>.  The random
  temperatures, humidity, wind and precipitation of a mock day are fields outside the
  slice kept here, and their draws are left out with them.
\<close>

fun mock_forecast_days :: "world \<Rightarrow> nat list \<Rightarrow> day_forecast list \<times> world" where
  "mock_forecast_days w [] = ([], w)"
| "mock_forecast_days w (i # rest) =
     (let (now, w1) = utcnow w;
          (desc, w2) = choice [''Clear'', ''Partly Cloudy'', ''Cloudy'', ''Light Rain'',
                               ''Heavy Rain'', ''Sunny'', ''Overcast'', ''Thunderstorm''] w1;
          (ic, w3) = choice [''01d'', ''02d'', ''03d'', ''04d'', ''09d'', ''10d'', ''11d''] w2;
          (later, w4) = mock_forecast_days w3 rest
      in (\<lparr>forecast_date = Some (date_isoformat (wall now + int i * 86400000000)),
           conditions = Some \<lparr>description = Some desc, icon = Some ic\<rparr>\<rparr> # later, w4))"

definition get_mock_forecast :: "world \<Rightarrow> string \<Rightarrow> int \<Rightarrow> weather_data \<times> world" where
  "get_mock_forecast w location days =
     (let (daily_forecasts, w') = mock_forecast_days w [0..<nat days]
      in (\<lparr>location_name = location, forecast = daily_forecasts, weather_source = ''mock''\<rparr>, w'))"

text \<open>
  \<open>WeatherAPI.get_forecast\<close>.  The provider methods catch every exception themselves and
  return \<open>None\<close>, so nothing in the \<open>try\<close> raises and the \<open>except\<close> clause, which
  would return the mock forecast, is never entered.
\<close>

definition get_forecast ::
  "weather_api \<Rightarrow> upstream \<Rightarrow> world \<Rightarrow> string \<Rightarrow> int \<Rightarrow> weather_data option \<times> world" where
  "get_forecast api up w location days =
     (if truthy (openweather_api_key api) then (get_openweather_forecast up location days, w)
      else if truthy (weatherapi_key api) then (get_weatherapi_forecast up location days, w)
      else (case get_mock_forecast w location days of (r, w') \<Rightarrow> (Some r, w')))"

subsection \<open>news\_api.py\<close>

text \<open>\<open>any(keyword in title or keyword in description for keyword in kws)\<close>.\<close>

definition any_in_either :: "string list \<Rightarrow> string \<Rightarrow> string \<Rightarrow> bool" where
  "any_in_either kws t d = list_ex (\<lambda>kw. str_in kw t \<or> str_in kw d) kws"

definition is_travel_relevant :: "raw_article \<Rightarrow> string \<Rightarrow> bool" where
  "is_travel_relevant a location =
     (let title_lower = lower (get_or (raw_title a) []);
          desc = lower (get_or (raw_description a) []);
          location_lower = lower location;
          location_mentioned = (str_in location_lower title_lower \<or> str_in location_lower desc);
          travel_related = any_in_either
            [''travel'', ''tourism'', ''airport'', ''flight'', ''hotel'', ''border'',
             ''visa'', ''embassy'', ''security'', ''alert'', ''warning'', ''advisory''] title_lower desc
      in location_mentioned \<and> travel_related)"

text \<open>
  \<open>NewsAPI._calculate_relevance\<close>, in two parts: the score the location and keyword
  tests add up to, and the recency bonus on top of it, capped at 1.  The score is kept as
  an exact rational; the float the source computes differs from it by rounding only.  A
  publish time that does not parse leaves the \<open>try\<close> through the bare \<open>except\<close> and
  adds nothing; \<open>pub_date.replace(tzinfo=None)\<close> drops the offset and keeps the fields.
\<close>

definition keyword_score :: "raw_article \<Rightarrow> string \<Rightarrow> rat" where
  "keyword_score a location =
     (let title_lower = lower (get_or (raw_title a) []);
          desc = lower (get_or (raw_description a) []);
          location_lower = lower location;
          score1 = (if str_in location_lower title_lower then 5 / 10 else 0);
          score2 = score1 + (if str_in location_lower desc then 3 / 10 else 0);
          score3 = score2 +
            (if any_in_either [''security alert'', ''travel warning'', ''embassy'',
                               ''border closure''] title_lower desc then 4 / 10 else 0)
      in score3 +
           (if any_in_either [''flight'', ''airport'', ''hotel'', ''tourism''] title_lower desc
            then 2 / 10 else 0))"

definition calculate_relevance ::
  "(string \<Rightarrow> pydatetime option) \<Rightarrow> world \<Rightarrow> raw_article \<Rightarrow> string \<Rightarrow> rat \<times> world" where
  "calculate_relevance fromisoformat w a location =
     (let score = keyword_score a location;
          published_at = get_or (publishedAt a) []
      in case fromisoformat (replace_Z published_at) of
           None \<Rightarrow> (min score 1, w)
         | Some pub_date \<Rightarrow>
             let (now, w1) = utcnow w;
                 hours_old = to_double (total_seconds (wall now - wall pub_date) / 3600)
             in (min (score + (if hours_old < 6 then 2 / 10
                               else if hours_old < 24 then 1 / 10 else 0)) 1, w1))"

definition categorize_news :: "raw_article \<Rightarrow> string" where
  "categorize_news a =
     (let title_lower = lower (get_or (raw_title a) []);
          desc = lower (get_or (raw_description a) [])
      in if any_in_either [''security'', ''alert'', ''warning'', ''embassy''] title_lower desc
           then ''security''
         else if any_in_either [''flight'', ''airline'', ''airport''] title_lower desc
           then ''transportation''
         else if any_in_either [''weather'', ''storm'', ''hurricane'', ''flood''] title_lower desc
           then ''weather''
         else if any_in_either [''hotel'', ''accommodation'', ''booking''] title_lower desc
           then ''accommodation''
         else if any_in_either [''tourism'', ''attraction'', ''festival''] title_lower desc
           then ''tourism''
         else ''general'')"

text \<open>The filtering loop of \<open>_get_newsapi_travel_news\<close>.\<close>

fun newsapi_articles ::
  "(string \<Rightarrow> pydatetime option) \<Rightarrow> world \<Rightarrow> string \<Rightarrow> raw_article list \<Rightarrow> article list \<times> world" where
  "newsapi_articles fromisoformat w location [] = ([], w)"
| "newsapi_articles fromisoformat w location (a # rest) =
     (if is_travel_relevant a location then
        let (score, w1) = calculate_relevance fromisoformat w a location;
            (later, w2) = newsapi_articles fromisoformat w1 location rest
        in (\<lparr>art_title = Some (get_or (raw_title a) []),
             art_description = Some (get_or (raw_description a) []),
             art_url = Some (get_or (raw_url a) []),
             art_source = Some (get_or (raw_source_name a) []),
             relevance_score = score,
             category = categorize_news a\<rparr> # later, w2)
      else newsapi_articles fromisoformat w location rest)"

text \<open>\<open>xs.sort(key=f, reverse=True)\<close>: a stable sort, largest key first.\<close>

definition sort_reverse :: "('a \<Rightarrow> 'k::linordered_ab_group_add) \<Rightarrow> 'a list \<Rightarrow> 'a list" where
  "sort_reverse f xs = sort_key (\<lambda>x. - f x) xs"

definition get_newsapi_travel_news ::
  "(string \<Rightarrow> pydatetime option) \<Rightarrow> upstream \<Rightarrow> world \<Rightarrow> string \<Rightarrow> int \<Rightarrow> news_data option \<times> world" where
  "get_newsapi_travel_news fromisoformat up w location days_back =
     (case newsapi_everything up location days_back of
        Inr raw \<Rightarrow>
          let (found, w') = newsapi_articles fromisoformat w location raw;
              sorted_articles = sort_reverse relevance_score found
          in (Some \<lparr>news_location = location, articles = take 10 sorted_articles,
                    total_found = length sorted_articles, news_source = ''newsapi''\<rparr>, w')
      | Inl e \<Rightarrow> (None, w))"

definition get_guardian_travel_news :: "upstream \<Rightarrow> string \<Rightarrow> int \<Rightarrow> news_data option" where
  "get_guardian_travel_news up location days_back =
     (case guardian_search up location days_back of
        Inr results \<Rightarrow>
          let arts = map (\<lambda>r. \<lparr>art_title = Some (get_or (webTitle r) []),
                                art_description = Some (get_or (standfirst r) []),
                                art_url = Some (get_or (webUrl r) []),
                                art_source = Some ''The Guardian'',
                                relevance_score = 8 / 10,
                                category = ''news''\<rparr>) results
          in Some \<lparr>news_location = location, articles = arts,
                   total_found = length arts, news_source = ''guardian''\<rparr>
      | Inl e \<Rightarrow> None)"

definition get_mock_travel_news :: "string \<Rightarrow> news_data" where
  "get_mock_travel_news location =
     (let mock_articles =
        [\<lparr>art_title = Some (''New Flight Routes to '' @ location @ '' Announced''),
          art_description = Some (''Major airline announces new direct flights to '' @ location
             @ '', improving connectivity for travelers.''),
          art_url = Some ''https://example.com/news1'',
          art_source = Some ''Travel Weekly'',
          relevance_score = 9 / 10, category = ''transportation''\<rparr>,
         \<lparr>art_title = Some (''Tourism in '' @ location @ '' Shows Strong Recovery''),
          art_description = Some (''Latest statistics show tourism numbers in '' @ location
             @ '' are bouncing back.''),
          art_url = Some ''https://example.com/news2'',
          art_source = Some ''Tourism Today'',
          relevance_score = 7 / 10, category = ''tourism''\<rparr>,
         \<lparr>art_title = Some (''Weather Alert: Heavy Rain Expected in '' @ location),
          art_description = Some (''Meteorologists warn of heavy rainfall in '' @ location
             @ '' region this week.''),
          art_url = Some ''https://example.com/news3'',
          art_source = Some ''Weather Central'',
          relevance_score = 8 / 10, category = ''weather''\<rparr>]
      in \<lparr>news_location = location, articles = mock_articles,
          total_found = length mock_articles, news_source = ''mock''\<rparr>)"

text \<open>
  \<open>NewsAPI.get_travel_news\<close>.  As in the weather adapter, the provider methods return
  \<open>None\<close> instead of raising, so the \<open>except\<close> clause with the mock fallback is
  never entered.
\<close>

definition get_travel_news ::
  "(string \<Rightarrow> pydatetime option) \<Rightarrow> news_api \<Rightarrow> upstream \<Rightarrow> world \<Rightarrow> string \<Rightarrow> int
     \<Rightarrow> news_data option \<times> world" where
  "get_travel_news fromisoformat api up w location days_back =
     (if truthy (newsapi_key api) then get_newsapi_travel_news fromisoformat up w location days_back
      else if truthy (guardian_api_key api) then (get_guardian_travel_news up location days_back, w)
      else (Some (get_mock_travel_news location), w))"

subsection \<open>s3\_client.py\<close>

definition list_user_documents :: "upstream \<Rightarrow> string \<Rightarrow> document list" where
  "list_user_documents up user_id =
     (case s3_objects up user_id of Inr documents \<Rightarrow> documents | Inl e \<Rightarrow> [])"

section \<open>The other evaluators (alerts\_handler.py)\<close>

record destination =
  location :: "string option"
  country :: "string option"
  arrival_date :: "string option"

text \<open>\<open>f"{x}"\<close> of a value that may be \<open>None\<close>.\<close>

definition py_str :: "string option \<Rightarrow> string" where
  "py_str v = (case v of None \<Rightarrow> ''None'' | Some s \<Rightarrow> s)"

text \<open>
  The body of the inner loop of \<open>check_weather_alerts\<close>: the alerts one forecast day
  adds for the destination \<open>loc\<close>.  The severe keywords are tested first and the
  moderate ones in the \<open>elif\<close>.
\<close>

definition weather_day_alerts :: "world \<Rightarrow> string \<Rightarrow> day_forecast \<Rightarrow> alert list \<times> world" where
  "weather_day_alerts w loc day =
     (let fdate = forecast_date day;
          conds = get_or (conditions day) \<lparr>description = None, icon = None\<rparr>
      in if any_in [''storm'', ''hurricane'', ''blizzard'', ''flood'']
              (lower (get_or (description conds) []))
         then let (now, w1) = utcnow w in
           ([\<lparr>alert_type = ''severe_weather'', priority = 4,
              title = ''Severe Weather Alert - '' @ loc,
              message = ''Severe weather expected in '' @ loc @ '' on '' @ py_str fdate @ '': ''
                 @ get_or (description conds) ''N/A'',
              extra = [(''location'', Some loc), (''date'', fdate)],
              action_required = True, created_at = wall now\<rparr>], w1)
         else if any_in [''heavy rain'', ''heavy snow'', ''fog'']
              (lower (get_or (description conds) []))
         then let (now, w1) = utcnow w in
           ([\<lparr>alert_type = ''weather_advisory'', priority = 2,
              title = ''Weather Advisory - '' @ loc,
              message = ''Weather conditions may affect travel in '' @ loc @ '' on ''
                 @ py_str fdate @ '': '' @ get_or (description conds) ''N/A'',
              extra = [(''location'', Some loc), (''date'', fdate)],
              action_required = False, created_at = wall now\<rparr>], w1)
         else ([], w))"

fun weather_days_loop :: "world \<Rightarrow> string \<Rightarrow> day_forecast list \<Rightarrow> alert list \<times> world" where
  "weather_days_loop w loc [] = ([], w)"
| "weather_days_loop w loc (day # rest) =
     (let (new, w1) = weather_day_alerts w loc day;
          (later, w2) = weather_days_loop w1 loc rest
      in (new @ later, w2))"

text \<open>The loop of \<open>check_weather_alerts\<close> over the destinations.\<close>

fun weather_destinations_loop ::
  "weather_api \<Rightarrow> upstream \<Rightarrow> world \<Rightarrow> destination list \<Rightarrow> alert list \<times> world" where
  "weather_destinations_loop api up w [] = ([], w)"
| "weather_destinations_loop api up w (dest # rest) =
     (if \<not> truthy (location dest) \<or> \<not> truthy (arrival_date dest)
      then weather_destinations_loop api up w rest
      else case get_forecast api up w (get_or (location dest) []) 5 of
        (None, w1) \<Rightarrow> weather_destinations_loop api up w1 rest
      | (Some weather, w1) \<Rightarrow>
          let (new, w2) = weather_days_loop w1 (get_or (location dest) []) (forecast weather);
              (later, w3) = weather_destinations_loop api up w2 rest
          in (new @ later, w3))"

text \<open>
  The itinerary dictionary.  Every key is optional: a stored itinerary is whatever was
  saved, and the empty dictionary has no key at all.
\<close>

datatype json = JNull | JBool bool | JNum int | JStr string
  | JList "json list" | JDict "(string \<times> json) list"

record activity =
  act_time :: string
  act_title :: string
  act_description :: string
  act_location :: string
  act_type :: string
  act_duration :: string
  estimated_cost :: int

record day_plan =
  day :: int
  day_date :: string
  day_title :: string
  activities :: "activity list"

record itinerary =
  itinerary_id :: "int option"
  owner_id :: "string option"
  destination :: "string option"
  start_date :: "string option"
  end_date :: "string option"
  itin_title :: "string option"
  itin_description :: "string option"
  days :: "day_plan list option"
  budget :: "json option"
  travelers :: "json option"
  itin_preferences :: "json option"
  itin_created_at :: "int option"
  itin_updated_at :: "int option"
  itin_status :: "string option"
  duration_days :: "int option"
  destinations :: "destination list option"

definition empty_itinerary :: itinerary where
  "empty_itinerary =
     \<lparr>itinerary_id = None, owner_id = None, destination = None, start_date = None,
      end_date = None, itin_title = None, itin_description = None, days = None, budget = None,
      travelers = None, itin_preferences = None, itin_created_at = None,
      itin_updated_at = None, itin_status = None, duration_days = None, destinations = None\<rparr>"

definition check_weather_alerts ::
  "weather_api \<Rightarrow> upstream \<Rightarrow> world \<Rightarrow> itinerary \<Rightarrow> alert list \<times> world" where
  "check_weather_alerts api up w itin =
     weather_destinations_loop api up w (get_or (destinations itin) [])"

text \<open>The body of the inner loop of \<open>check_news_alerts\<close>, for one article.\<close>

definition news_article_alerts ::
  "world \<Rightarrow> string \<Rightarrow> string \<Rightarrow> article \<Rightarrow> alert list \<times> world" where
  "news_article_alerts w loc ctry a =
     (let ttl = get_or (art_title a) [];
          desc = get_or (art_description a) []
      in if any_in_either
              [''travel advisory'', ''border closure'', ''flight cancellation'',
               ''embassy'', ''security alert'', ''strike'', ''protest'',
               ''visa requirement'', ''entry restriction''] (lower ttl) (lower desc)
         then let (now, w1) = utcnow w in
           ([\<lparr>alert_type = ''travel_advisory'', priority = 3,
              title = ''Travel Advisory - '' @ ctry,
              message = ''Travel news for '' @ ctry @ '': '' @ take 100 ttl @ ''...'',
              extra = [(''location'', Some loc), (''country'', Some ctry),
                       (''source'', Some (get_or (art_source a) ''Unknown'')),
                       (''url'', Some (get_or (art_url a) []))],
              action_required = True, created_at = wall now\<rparr>], w1)
         else ([], w))"

fun news_articles_loop ::
  "world \<Rightarrow> string \<Rightarrow> string \<Rightarrow> article list \<Rightarrow> alert list \<times> world" where
  "news_articles_loop w loc ctry [] = ([], w)"
| "news_articles_loop w loc ctry (a # rest) =
     (let (new, w1) = news_article_alerts w loc ctry a;
          (later, w2) = news_articles_loop w1 loc ctry rest
      in (new @ later, w2))"

fun news_destinations_loop ::
  "(string \<Rightarrow> pydatetime option) \<Rightarrow> news_api \<Rightarrow> upstream \<Rightarrow> world \<Rightarrow> destination list
     \<Rightarrow> alert list \<times> world" where
  "news_destinations_loop fromisoformat api up w [] = ([], w)"
| "news_destinations_loop fromisoformat api up w (dest # rest) =
     (if \<not> truthy (location dest)
      then news_destinations_loop fromisoformat api up w rest
      else
        let loc = get_or (location dest) [];
            ctry = get_or (country dest) loc
        in case get_travel_news fromisoformat api up w ctry 7 of
          (None, w1) \<Rightarrow> news_destinations_loop fromisoformat api up w1 rest
        | (Some news, w1) \<Rightarrow>
            let (new, w2) = news_articles_loop w1 loc ctry (take 3 (articles news));
                (later, w3) = news_destinations_loop fromisoformat api up w2 rest
            in (new @ later, w3))"

definition check_news_alerts ::
  "(string \<Rightarrow> pydatetime option) \<Rightarrow> news_api \<Rightarrow> upstream \<Rightarrow> world \<Rightarrow> itinerary
     \<Rightarrow> alert list \<times> world" where
  "check_news_alerts fromisoformat api up w itin =
     news_destinations_loop fromisoformat api up w (get_or (destinations itin) [])"

text \<open>The loop of \<open>check_document_alerts\<close>.\<close>

fun documents_loop :: "world \<Rightarrow> document list \<Rightarrow> alert list \<times> world" where
  "documents_loop w [] = ([], w)"
| "documents_loop w (doc # rest) =
     (if get_or (doc_type doc) [] = ''identification''
         \<and> str_in ''passport'' (lower (get_or (doc_filename doc) []))
      then
        let (u, w1) = random w in
        if u < 2 / 10 then
          let (now, w2) = utcnow w1;
              (later, w3) = documents_loop w2 rest
          in (\<lparr>alert_type = ''document_expiry'', priority = 4,
               title = ''Passport Expiry Warning'',
               message = ''Your passport may expire soon. Please verify the expiry date and renew if necessary.'',
               extra = [(''document'', doc_filename doc)],
               action_required = True, created_at = wall now\<rparr> # later, w3)
        else documents_loop w1 rest
      else documents_loop w rest)"

definition check_document_alerts :: "upstream \<Rightarrow> world \<Rightarrow> string \<Rightarrow> alert list \<times> world" where
  "check_document_alerts up w user_id = documents_loop w (list_user_documents up user_id)"

section \<open>The user-state store (dynamodb\_client.py)\<close>

record custom_alert =
  ca_type :: string
  ca_priority :: json
  ca_title :: json
  ca_message :: json
  trigger_date :: json
  ca_action_required :: json
  ca_created_at :: int
  user_created :: bool

record dismissal =
  alert_id :: string
  dismissed_at :: int

text \<open>
  The user data dictionary: the keys the handlers and the client read or write, \<open>None\<close>
  for an absent key.  The key \<open>data\<close> holds such a dictionary again (the decoded
  \<open>Data\<close> attribute), which is why it is kept apart from the other keys.
\<close>

record user_fields =
  uf_user_id :: "string option"
  updated_at :: "int option"
  current_itinerary :: "itinerary option"
  uf_itinerary :: "itinerary option"
  preferences :: "json option"
  bookings :: "booking list option"
  last_alert_check :: "int option"
  current_alerts :: "alert list option"
  custom_alerts :: "custom_alert list option"
  dismissed_alerts :: "dismissal list option"

datatype user_data = UserData (ud_fields: user_fields) (ud_data: "user_data option")

definition empty_fields :: user_fields where
  "empty_fields =
     \<lparr>uf_user_id = None, updated_at = None, current_itinerary = None, uf_itinerary = None,
      preferences = None, bookings = None, last_alert_check = None, current_alerts = None,
      custom_alerts = None, dismissed_alerts = None\<rparr>"

text \<open>The empty dictionary \<open>{}\<close>.\<close>

definition empty_user_data :: user_data where
  "empty_user_data = UserData empty_fields None"

text \<open>An item of the table \<open>TravelItineraries\<close>, keyed by \<open>UserID\<close>.\<close>

record item =
  Data :: "user_data option"
  UpdatedAt :: "int option"
  CurrentItinerary :: "itinerary option"
  Preferences :: "json option"
  Bookings :: "booking list option"

type_synonym dynamodb = "string \<Rightarrow> item option"

text \<open>Whether the next DynamoDB request raises \<open>ClientError\<close>.\<close>

definition next_fault :: "world \<Rightarrow> bool \<times> world" where
  "next_fault w = (shd (faults w), w\<lparr>faults := stl (faults w)\<rparr>)"

text \<open>
  \<open>save_user_data\<close>: \<open>put_item\<close> replaces the whole item; the dictionary goes into
  \<open>Data\<close>, and the keys \<open>itinerary\<close>, \<open>preferences\<close> and \<open>bookings\<close> are
  copied into attributes of their own.  (The \<open>TTL\<close> attribute is left out.)
\<close>

definition save_user_data ::
  "dynamodb \<Rightarrow> world \<Rightarrow> string \<Rightarrow> user_data \<Rightarrow> bool \<times> world \<times> dynamodb" where
  "save_user_data db w user_id d =
     (let (timestamp, w1) = utcnow w;
          (failed, w2) = next_fault w1
      in if failed then (False, w2, db)
         else (True, w2,
               db(user_id \<mapsto>
                 \<lparr>Data = Some d, UpdatedAt = Some (wall timestamp),
                  CurrentItinerary = uf_itinerary (ud_fields d),
                  Preferences = preferences (ud_fields d),
                  Bookings = bookings (ud_fields d)\<rparr>)))"

definition get_user_data :: "dynamodb \<Rightarrow> world \<Rightarrow> string \<Rightarrow> user_data option \<times> world" where
  "get_user_data db w user_id =
     (let (failed, w1) = next_fault w
      in if failed then (None, w1)
         else case db user_id of
                None \<Rightarrow> (None, w1)
              | Some it \<Rightarrow>
                  (Some (UserData
                     (empty_fields\<lparr>uf_user_id := Some user_id, updated_at := UpdatedAt it,
                        current_itinerary := CurrentItinerary it,
                        preferences := Preferences it, bookings := Bookings it\<rparr>)
                     (Some (get_or (Data it) empty_user_data))), w1))"



section \<open>The alert handlers (alerts\_handler.py)\<close>

text \<open>
  What a handler returns: \<open>jsonify(body)\<close>, or \<open>jsonify({'error': msg}), status\<close>.
\<close>

datatype 'a response = Success 'a | Failure string nat

record alerts_body =
  body_message :: "string option"
  body_alerts :: "alert list"
  body_count :: "nat option"
  body_last_updated :: "int option"

text \<open>The configuration and providers a handler runs against.\<close>

record services =
  fromisoformat_impl :: "string \<Rightarrow> pydatetime option"
  weather_client :: weather_api
  news_client :: news_api
  providers :: upstream

text \<open>
  The middle of \<open>handle_alerts\<close>: the four evaluators are run in the order flight,
  weather, news, document, and each result is appended to \<open>alerts\<close>.
\<close>

definition collect_alerts ::
  "services \<Rightarrow> world \<Rightarrow> user_data \<Rightarrow> string \<Rightarrow> alert list \<times> world" where
  "collect_alerts sv w ud user_id =
     (let (flight_alerts, w1) =
            check_flight_alerts (fromisoformat_impl sv) w (get_or (bookings (ud_fields ud)) []);
          (weather_alerts, w2) =
            check_weather_alerts (weather_client sv) (providers sv) w1
              (get_or (current_itinerary (ud_fields ud)) empty_itinerary);
          (news_alerts, w3) =
            check_news_alerts (fromisoformat_impl sv) (news_client sv) (providers sv) w2
              (get_or (current_itinerary (ud_fields ud)) empty_itinerary);
          (document_alerts, w4) = check_document_alerts (providers sv) w3 user_id
      in (flight_alerts @ weather_alerts @ news_alerts @ document_alerts, w4))"

definition handle_alerts ::
  "services \<Rightarrow> world \<Rightarrow> dynamodb \<Rightarrow> string \<Rightarrow> alerts_body response \<times> world \<times> dynamodb" where
  "handle_alerts sv w db user_id =
     (if user_id = [] then (Failure ''Missing user_id'' 400, w, db)
      else case get_user_data db w user_id of
        (None, w1) \<Rightarrow>
          (Success \<lparr>body_message = Some ''No user data found'', body_alerts = [],
                    body_count = None, body_last_updated = None\<rparr>, w1, db)
      | (Some ud, w1) \<Rightarrow>
          let (emitted, w5) = collect_alerts sv w1 ud user_id;
              alerts = sort_reverse priority emitted;
              (checked, w6) = utcnow w5;
              ud' = UserData ((ud_fields ud)\<lparr>last_alert_check := Some (wall checked),
                                              current_alerts := Some alerts\<rparr>) (ud_data ud);
              (saved, w7, db') = save_user_data db w6 user_id ud';
              (now, w8) = utcnow w7
          in (Success \<lparr>body_message = None, body_alerts = alerts,
                       body_count = Some (length alerts),
                       body_last_updated = Some (wall now)\<rparr>, w8, db'))"

text \<open>The request dictionary of \<open>create_custom_alert\<close> and \<open>dismiss_alert\<close>.\<close>

record alert_request =
  req_user_id :: "string option"
  req_alert :: "(string \<times> json) list option"
  req_alert_id :: "string option"

text \<open>\<open>d.get(key, default)\<close> on a dictionary kept as an association list.\<close>

definition dict_get :: "(string \<times> json) list \<Rightarrow> string \<Rightarrow> json \<Rightarrow> json" where
  "dict_get d k dflt = (case map_of d k of None \<Rightarrow> dflt | Some v \<Rightarrow> v)"

definition create_custom_alert ::
  "world \<Rightarrow> dynamodb \<Rightarrow> alert_request
     \<Rightarrow> (string \<times> custom_alert) response \<times> world \<times> dynamodb" where
  "create_custom_alert w db req =
     (let alert_data = get_or (req_alert req) []
      in if \<not> truthy (req_user_id req) \<or> alert_data = []
         then (Failure ''Missing user_id or alert data'' 400, w, db)
         else
           let user_id = get_or (req_user_id req) [];
               (now, w1) = utcnow w;
               new_alert =
                 \<lparr>ca_type = ''custom'',
                  ca_priority = dict_get alert_data ''priority'' (JNum 1),
                  ca_title = dict_get alert_data ''title'' (JStr ''Custom Alert''),
                  ca_message = dict_get alert_data ''message'' (JStr []),
                  trigger_date = dict_get alert_data ''trigger_date'' JNull,
                  ca_action_required = dict_get alert_data ''action_required'' (JBool False),
                  ca_created_at = wall now, user_created = True\<rparr>;
               (found, w2) = get_user_data db w1 user_id;
               ud = get_or found empty_user_data;
               ud' = UserData ((ud_fields ud)\<lparr>custom_alerts :=
                        Some (get_or (custom_alerts (ud_fields ud)) [] @ [new_alert])\<rparr>) (ud_data ud);
               (success, w3, db') = save_user_data db w2 user_id ud'
           in if success
              then (Success (''Custom alert created successfully'', new_alert), w3, db')
              else (Failure ''Failed to create alert'' 500, w3, db'))"


section \<open>The itinerary handlers (itinerary\_handler.py)\<close>









text \<open>What a handler call answered on success, and the itinerary the store holds.\<close>

definition returned :: "'a response \<times> world \<times> dynamodb \<Rightarrow> 'a option" where
  "returned r = (case fst r of Success x \<Rightarrow> Some x | Failure msg code \<Rightarrow> None)"


text \<open>The alert list and the dismissals the store holds for a user.\<close>

definition stored_alerts :: "dynamodb \<Rightarrow> string \<Rightarrow> alert list option" where
  "stored_alerts db user_id =
     (case db user_id of
        None \<Rightarrow> None
      | Some it \<Rightarrow> (case Data it of None \<Rightarrow> None | Some d \<Rightarrow> current_alerts (ud_fields d)))"


section \<open>Example data\<close>

text \<open>
  A parser that knows a few dates by heart, a world in which the clock stands at zero,
  the draws are 0.5 and no request fails, and a trip request with its follow-up.
\<close>

definition example_fromisoformat :: "string \<Rightarrow> pydatetime option" where
  "example_fromisoformat s =
     (if s = ''1970-01-01'' then Some \<lparr>wall = 0, utcoffset = None\<rparr>
      else if s = ''1970-01-01T23:00:00'' then Some \<lparr>wall = 82800000000, utcoffset = None\<rparr>
      else if s = ''1970-01-03'' then Some \<lparr>wall = 172800000000, utcoffset = None\<rparr>
      else if s = ''1970-01-05'' then Some \<lparr>wall = 345600000000, utcoffset = None\<rparr>
      else None)"

definition quiet_world :: world where
  "quiet_world = \<lparr>clock = sconst 0, rng = sconst (1 / 2), picks = sconst 0, faults = sconst False\<rparr>"




text \<open>
  Providers of which only OpenWeatherMap answers, with one forecast day of severe
  thunderstorms; and an itinerary with one destination.
\<close>

definition stormy_upstream :: upstream where
  "stormy_upstream =
     \<lparr>openweather_forecast = (\<lambda>loc n. Inr
        [\<lparr>forecast_date = Some ''1970-01-02'',
          conditions = Some \<lparr>description = Some ''Severe Thunderstorm expected'',
                              icon = Some ''11d''\<rparr>\<rparr>]),
      weatherapi_forecast = (\<lambda>loc n. Inl TransportError),
      newsapi_everything = (\<lambda>loc n. Inl TransportError),
      guardian_search = (\<lambda>loc n. Inl TransportError),
      s3_objects = (\<lambda>uid. Inr [])\<rparr>"

definition trip_to_goa :: itinerary where
  "trip_to_goa =
     empty_itinerary\<lparr>destinations :=
       Some [\<lparr>location = Some ''Goa'', country = None, arrival_date = Some ''1970-01-02''\<rparr>]\<rparr>"

text \<open>An article that matches every scoring rule, with a publish time that does not parse.\<close>

definition alarming_article :: raw_article where
  "alarming_article =
     \<lparr>raw_title = Some ''Security Alert in Goa: airport closed'',
      raw_description = Some ''Embassy issues travel warning for Goa'',
      raw_url = None, raw_source_name = None, publishedAt = Some ''yesterday''\<rparr>"

text \<open>
  A deployment with an OpenWeatherMap key and a Guardian key, in front of the stormy
  providers (where the Guardian is out of reach); and a table with one user, who has two
  flights leaving at 23:00 and a trip to Goa.
\<close>

definition example_services :: services where
  "example_services =
     \<lparr>fromisoformat_impl = example_fromisoformat,
      weather_client = \<lparr>openweather_api_key = Some ''key'', weatherapi_key = None\<rparr>,
      news_client = \<lparr>newsapi_key = None, guardian_api_key = Some ''key''\<rparr>,
      providers = stormy_upstream\<rparr>"

definition example_bookings :: "booking list" where
  "example_bookings =
     [confirmed_flight ''1970-01-01T23:00:00'' (Some ''AI101'') (Some ''b1''),
      confirmed_flight ''1970-01-01T23:00:00'' (Some ''AI202'') (Some ''b2'')]"

definition travellers_table :: dynamodb where
  "travellers_table =
     [''u1'' \<mapsto> \<lparr>Data = None, UpdatedAt = None, CurrentItinerary = Some trip_to_goa,
                     Preferences = None, Bookings = Some example_bookings\<rparr>]"

text \<open>What \<open>get_user_data\<close> answers for that user.\<close>

definition example_user :: user_data where
  "example_user =
     UserData (empty_fields\<lparr>uf_user_id := Some ''u1'', current_itinerary := Some trip_to_goa,
                  bookings := Some example_bookings\<rparr>) (Some empty_user_data)"

text \<open>Providers none of which can be reached.\<close>

definition unreachable_upstream :: upstream where
  "unreachable_upstream =
     \<lparr>openweather_forecast = (\<lambda>loc n. Inl TransportError),
      weatherapi_forecast = (\<lambda>loc n. Inl TransportError),
      newsapi_everything = (\<lambda>loc n. Inl TransportError),
      guardian_search = (\<lambda>loc n. Inl TransportError),
      s3_objects = (\<lambda>uid. Inl TransportError)\<rparr>"



section \<open>Facts about strings\<close>

lemma starts_with_iff: "starts_with kw s \<longleftrightarrow> (\<exists>ss. s = kw @ ss)"
  by (induction kw s rule: starts_with.induct) auto

lemma str_in_iff: "str_in kw s \<longleftrightarrow> (\<exists>ps ss. s = ps @ kw @ ss)"
proof (induction s)
  case Nil
  then show ?case by auto
next
  case (Cons c cs)
  show ?case
  proof
    assume "str_in kw (c # cs)"
    then consider "starts_with kw (c # cs)" | "str_in kw cs" by auto
    then show "\<exists>ps ss. c # cs = ps @ kw @ ss"
    proof cases
      case 1
      then obtain ss where "c # cs = kw @ ss" using starts_with_iff by blast
      then have "c # cs = [] @ kw @ ss" by simp
      then show ?thesis by blast
    next
      case 2
      then obtain ps ss where "cs = ps @ kw @ ss" using Cons.IH by blast
      then have "c # cs = (c # ps) @ kw @ ss" by simp
      then show ?thesis by blast
    qed
  next
    assume "\<exists>ps ss. c # cs = ps @ kw @ ss"
    then obtain ps ss where eq: "c # cs = ps @ kw @ ss" by blast
    show "str_in kw (c # cs)"
    proof (cases ps)
      case Nil
      then have "starts_with kw (c # cs)" using eq starts_with_iff by auto
      then show ?thesis by simp
    next
      case (Cons p ps')
      then have "cs = ps' @ kw @ ss" using eq by simp
      then have "str_in kw cs" using Cons.IH by blast
      then show ?thesis by simp
    qed
  qed
qed

lemma any_in_iff: "any_in kws s \<longleftrightarrow> mentions_one_of kws s"
  unfolding any_in_def mentions_one_of_def list_ex_iff str_in_iff by blast

text \<open>
  C9.  For every file name the classifier returns the first category, in the order
  identification, flight\_document, accommodation, insurance, itinerary, one of whose
  keywords is a substring of the lowered name, and \<open>other\<close> when there is none;
  \<open>my_passport_scan.pdf\<close> is identification, \<open>hotel_reservation_confirm.pdf\<close> is
  accommodation and \<open>randomfile.pdf\<close> is other.
\<close>

theorem classify_document_type_first_match:
  "classify_document_type filename = first_matching_category document_categories (lower filename)
   \<and> classify_document_type ''my_passport_scan.pdf'' = ''identification''
   \<and> classify_document_type ''hotel_reservation_confirm.pdf'' = ''accommodation''
   \<and> classify_document_type ''randomfile.pdf'' = ''other''"
proof -
  have general: "classify_document_type filename
      = first_matching_category document_categories (lower filename)"
    by (simp add: classify_document_type_def document_categories_def Let_def any_in_iff)
  have e1: "classify_document_type ''my_passport_scan.pdf'' = ''identification''"
    by (simp add: classify_document_type_def any_in_def lower_def lower_char_def)
  have e2: "classify_document_type ''hotel_reservation_confirm.pdf'' = ''accommodation''"
    by (simp add: classify_document_type_def any_in_def lower_def lower_char_def)
  have e3: "classify_document_type ''randomfile.pdf'' = ''other''"
    by (simp add: classify_document_type_def any_in_def lower_def lower_char_def)
  from general e1 e2 e3 show ?thesis by blast
qed

text \<open>
  The order matters: \<open>Valid_Ticket.pdf\<close> holds both \<open>id\<close> and \<open>ticket\<close>, and the
  earlier category wins.
\<close>

theorem classify_document_type_first_match_witness:
  "first_matching_category document_categories (lower ''Valid_Ticket.pdf'') = ''identification''"
proof -
  have "classify_document_type ''Valid_Ticket.pdf'' = ''identification''"
    by (simp add: classify_document_type_def any_in_def lower_def lower_char_def)
  with classify_document_type_first_match [of "''Valid_Ticket.pdf''"] show ?thesis
    by simp
qed

section \<open>Facts about floats\<close>

lemma round_half_even_of_int: "round_half_even (of_int n) = n"
  by (simp add: round_half_even_def)

lemma pow2_nonzero: "pow2 e \<noteq> 0"
  by (simp add: pow2_def)

text \<open>A number that fits the 53-bit significand is its own nearest double.\<close>

lemma to_double_exact:
  assumes "0 < x" and "x / pow2 (binary_exponent x - 52) = of_int n"
  shows "to_double x = x"
proof -
  have "\<bar>x\<bar> = x" using assms(1) by simp
  moreover have "of_int n * pow2 (binary_exponent x - 52) = x"
    using assms(2) pow2_nonzero [of "binary_exponent x - 52"]
    by (metis nonzero_divide_eq_eq)
  ultimately show ?thesis
    using assms by (simp add: to_double_def Let_def round_half_even_of_int)
qed

lemma binary_exponent_9000: "binary_exponent 9000 = 13"
  by (simp add: binary_exponent_def)

lemma floor_5_2: "\<lfloor>5 / 2 :: rat\<rfloor> = 2"
  by (simp add: floor_eq_iff)

lemma binary_exponent_5_2: "binary_exponent (5 / 2) = 1"
  by (simp add: binary_exponent_def floor_5_2)

lemma total_seconds_9000: "total_seconds 9000000000 = 9000"
proof -
  have "(9000::rat) / pow2 (binary_exponent 9000 - 52) = of_int (9000 * 2 ^ 39)"
    by (simp add: binary_exponent_9000 pow2_def)
  then have "to_double 9000 = 9000" by (rule to_double_exact [rotated]) simp
  then show ?thesis by (simp add: total_seconds_def)
qed

text \<open>\<open>9000 / 3600\<close>, the hours of a \<open>timedelta\<close> of two and a half hours.\<close>

lemma to_double_5_2: "to_double (5 / 2) = 5 / 2"
proof -
  have "(5 / 2 :: rat) / pow2 (binary_exponent (5 / 2) - 52) = of_int (5 * 2 ^ 50)"
    by (simp add: binary_exponent_5_2 pow2_def)
  then show ?thesis by (rule to_double_exact [rotated]) simp
qed

lemma format_1f_5_2: "format_1f (5 / 2) = ''2.5''"
proof -
  have "round_half_even 25 = 25" using round_half_even_of_int [of 25] by simp
  then show ?thesis by (simp add: format_1f_def)
qed

section \<open>The flight evaluator\<close>

lemma checkin_at_23h:
  assumes "d \<noteq> []"
    and "fromisoformat (replace_Z d) = Some \<lparr>wall = shd (clock w) + hours 23, utcoffset = None\<rparr>"
  shows "fst (check_flight_alerts fromisoformat w [confirmed_flight d fnum bid]) =
     [\<lparr>alert_type = ''flight_checkin_reminder'', priority = 3,
       title = ''Flight Check-in Available'',
       message = ''Check-in is now available for your flight '' @ get_or fnum ''N/A'',
       extra = [(''booking_id'', bid)],
       action_required = True, created_at = shd (clock w)\<rparr>]"
  using assms
  by (simp add: check_flight_alerts_def flight_booking_alerts_def confirmed_flight_def
      utcnow_def dt_sub_def hours_def Let_def get_or_def)

lemma nothing_at_10h:
  assumes "d \<noteq> []"
    and "fromisoformat (replace_Z d) = Some \<lparr>wall = shd (clock w) + hours 10, utcoffset = None\<rparr>"
  shows "fst (check_flight_alerts fromisoformat w [confirmed_flight d fnum bid]) = []"
  using assms
  by (simp add: check_flight_alerts_def flight_booking_alerts_def confirmed_flight_def
      utcnow_def dt_sub_def hours_def Let_def get_or_def)

lemma departure_at_2h30:
  assumes "d \<noteq> []"
    and "fromisoformat (replace_Z d) =
      Some \<lparr>wall = shd (clock w) + hours 5 div 2, utcoffset = None\<rparr>"
  shows "fst (check_flight_alerts fromisoformat w [confirmed_flight d fnum bid]) =
     \<lparr>alert_type = ''departure_reminder'', priority = 4,
       title = ''Upcoming Flight Departure'',
       message = ''Your flight '' @ get_or fnum ''N/A'' @ '' departs in approximately 2.5 hours'',
       extra = [(''booking_id'', bid)],
       action_required = False, created_at = shd (clock w)\<rparr> #
     (if shd (rng w) < 1 / 10 then
       [\<lparr>alert_type = ''gate_change'', priority = 5,
         title = ''Gate Change Alert'',
         message = ''Gate change for flight '' @ get_or fnum ''N/A'' @ ''. New gate: ''
            @ [''A12'', ''B23'', ''C34'', ''D45''] ! (shd (picks w) mod 4),
         extra = [(''booking_id'', bid)],
         action_required = True, created_at = shd (clock w)\<rparr>]
      else [])"
  using assms
  by (simp add: check_flight_alerts_def flight_booking_alerts_def confirmed_flight_def
      utcnow_def dt_sub_def hours_def Let_def random_def choice_def get_or_def
      total_seconds_9000 to_double_5_2 format_1f_5_2)

text \<open>
  C3 (as the code has it).  For a confirmed flight booking whose departure text parses to
  a naive timestamp: at exactly 23 hours before departure the evaluator emits exactly one
  alert, a \<open>flight_checkin_reminder\<close> of priority 3; at exactly 2.5 hours it emits one
  \<open>departure_reminder\<close> of priority 4 whose message reads "2.5 hours", followed by a
  \<open>gate_change\<close> alert of priority 5 exactly when the random draw is below 0.1; at
  exactly 10 hours it emits nothing.
\<close>

theorem check_flight_alerts_timing:
  assumes "d23 \<noteq> []"
    and "fromisoformat (replace_Z d23) =
      Some \<lparr>wall = shd (clock w) + hours 23, utcoffset = None\<rparr>"
    and "d2h30 \<noteq> []"
    and "fromisoformat (replace_Z d2h30) =
      Some \<lparr>wall = shd (clock w) + hours 5 div 2, utcoffset = None\<rparr>"
    and "d10 \<noteq> []"
    and "fromisoformat (replace_Z d10) =
      Some \<lparr>wall = shd (clock w) + hours 10, utcoffset = None\<rparr>"
  shows "fst (check_flight_alerts fromisoformat w [confirmed_flight d23 fnum bid]) =
       [\<lparr>alert_type = ''flight_checkin_reminder'', priority = 3,
         title = ''Flight Check-in Available'',
         message = ''Check-in is now available for your flight '' @ get_or fnum ''N/A'',
         extra = [(''booking_id'', bid)],
         action_required = True, created_at = shd (clock w)\<rparr>]
     \<and> fst (check_flight_alerts fromisoformat w [confirmed_flight d2h30 fnum bid]) =
       \<lparr>alert_type = ''departure_reminder'', priority = 4,
         title = ''Upcoming Flight Departure'',
         message = ''Your flight '' @ get_or fnum ''N/A''
            @ '' departs in approximately 2.5 hours'',
         extra = [(''booking_id'', bid)],
         action_required = False, created_at = shd (clock w)\<rparr> #
       (if shd (rng w) < 1 / 10 then
         [\<lparr>alert_type = ''gate_change'', priority = 5,
           title = ''Gate Change Alert'',
           message = ''Gate change for flight '' @ get_or fnum ''N/A'' @ ''. New gate: ''
              @ [''A12'', ''B23'', ''C34'', ''D45''] ! (shd (picks w) mod 4),
           extra = [(''booking_id'', bid)],
           action_required = True, created_at = shd (clock w)\<rparr>]
        else [])
     \<and> fst (check_flight_alerts fromisoformat w [confirmed_flight d10 fnum bid]) = []"
proof -
  note a = checkin_at_23h [of d23 fromisoformat w fnum bid]
  note b = departure_at_2h30 [of d2h30 fromisoformat w fnum bid]
  note c = nothing_at_10h [of d10 fromisoformat w fnum bid]
  from a b c assms show ?thesis by blast
qed

text \<open>
  The three departures of the theorem on one day: the clock reads 0, the flights leave 23,
  2.5 and 10 hours later, and the random draw is 0.5.
\<close>

theorem check_flight_alerts_timing_witness:
  "map (\<lambda>a. (alert_type a, priority a, message a))
     (fst (check_flight_alerts
        (\<lambda>s. if s = ''1970-01-01T23:00:00'' then Some \<lparr>wall = 82800000000, utcoffset = None\<rparr>
             else if s = ''1970-01-01T02:30:00'' then Some \<lparr>wall = 9000000000, utcoffset = None\<rparr>
             else if s = ''1970-01-01T10:00:00'' then Some \<lparr>wall = 36000000000, utcoffset = None\<rparr>
             else None)
        \<lparr>clock = sconst 0, rng = sconst (1 / 2), picks = sconst 0, faults = sconst False\<rparr>
        [confirmed_flight ''1970-01-01T02:30:00'' (Some ''AI101'') (Some ''b1'')]))
   = [(''departure_reminder'', 4, ''Your flight AI101 departs in approximately 2.5 hours'')]"
  using check_flight_alerts_timing
    [of "''1970-01-01T23:00:00''"
        "\<lambda>s. if s = ''1970-01-01T23:00:00'' then Some \<lparr>wall = 82800000000, utcoffset = None\<rparr>
             else if s = ''1970-01-01T02:30:00'' then Some \<lparr>wall = 9000000000, utcoffset = None\<rparr>
             else if s = ''1970-01-01T10:00:00'' then Some \<lparr>wall = 36000000000, utcoffset = None\<rparr>
             else None"
        "\<lparr>clock = sconst 0, rng = sconst (1 / 2), picks = sconst 0, faults = sconst False\<rparr>"
        "''1970-01-01T02:30:00''" "''1970-01-01T10:00:00''" "Some ''AI101''" "Some ''b1''"]
  by (simp add: replace_Z_def hours_def get_or_def)

text \<open>
  The claim as stated fails when the draw is below 0.1: at 2.5 hours before departure the
  departure reminder is followed by a gate change alert.
\<close>

theorem check_flight_alerts_gate_change_counterexample:
  "map alert_type
     (fst (check_flight_alerts
        (\<lambda>s. if s = ''1970-01-01T02:30:00'' then Some \<lparr>wall = 9000000000, utcoffset = None\<rparr>
             else None)
        \<lparr>clock = sconst 0, rng = sconst 0, picks = sconst 0, faults = sconst False\<rparr>
        [confirmed_flight ''1970-01-01T02:30:00'' (Some ''AI101'') (Some ''b1'')]))
   = [''departure_reminder'', ''gate_change'']"
  by (simp add: check_flight_alerts_def flight_booking_alerts_def confirmed_flight_def
      utcnow_def dt_sub_def hours_def Let_def random_def choice_def get_or_def replace_Z_def
      total_seconds_9000 to_double_5_2 format_1f_5_2)

text \<open>
  A departure text with a UTC designator parses to an aware timestamp; subtracting the
  naive clock reading raises, the loop is left, and the booking yields no alert whatever
  its departure time (the bookings after it are not looked at either).
\<close>

lemma aware_departure_yields_nothing:
  assumes "d \<noteq> []"
    and "fromisoformat (replace_Z d) = Some \<lparr>wall = t, utcoffset = Some off\<rparr>"
  shows "fst (check_flight_alerts fromisoformat w (confirmed_flight d fnum bid # bs)) = []"
  using assms
  by (simp add: check_flight_alerts_def flight_booking_alerts_def confirmed_flight_def
      utcnow_def dt_sub_def Let_def get_or_def)

section \<open>The itinerary handlers\<close>






section \<open>The weather evaluator\<close>




lemma thunderstorm_is_severe:
  "any_in [''storm'', ''hurricane'', ''blizzard'', ''flood'']
     (lower ''Severe Thunderstorm expected'')"
  by (simp add: any_in_def lower_def lower_char_def)





section \<open>The relevance score\<close>

lemma keyword_score_nonneg: "0 \<le> keyword_score a loc"
  by (simp add: keyword_score_def Let_def)

lemma calculate_relevance_bounds:
  "0 \<le> fst (calculate_relevance f w a loc) \<and> fst (calculate_relevance f w a loc) \<le> 1"
  using keyword_score_nonneg [of a loc]
  by (simp add: calculate_relevance_def Let_def utcnow_def split: option.splits)

lemma calculate_relevance_unparseable:
  "f (replace_Z (get_or (publishedAt a) [])) = None \<Longrightarrow>
   calculate_relevance f w a loc = (min (keyword_score a loc) 1, w)"
  by (simp add: calculate_relevance_def Let_def)

text \<open>
  C6.  For every article, location, parser and clock the relevance score lies between 0
  and 1.  When the publish time is missing or does not parse, the score is the keyword
  score capped at 1: the recency bonus is 0, the clock is not read, and a score is
  returned all the same.
\<close>

theorem relevance_score_in_unit_interval:
  "0 \<le> fst (calculate_relevance f w a loc) \<and> fst (calculate_relevance f w a loc) \<le> 1
   \<and> (f (replace_Z (get_or (publishedAt a) [])) = None \<longrightarrow>
        calculate_relevance f w a loc = (min (keyword_score a loc) 1, w))"
  using calculate_relevance_bounds [of f w a loc] calculate_relevance_unparseable [of f a w loc]
  by blast

text \<open>
  The alarming article scores 0.5 + 0.3 + 0.4 + 0.2 before the cap; its publish time
  "yesterday" does not parse, and the score returned is 1.
\<close>

theorem relevance_score_in_unit_interval_witness:
  "keyword_score alarming_article ''Goa'' = 14 / 10
   \<and> calculate_relevance example_fromisoformat quiet_world alarming_article ''Goa''
       = (1, quiet_world)"
proof -
  have ks: "keyword_score alarming_article ''Goa'' = 14 / 10"
    by (simp add: keyword_score_def alarming_article_def Let_def get_or_def lower_def
        lower_char_def any_in_either_def)
  have "example_fromisoformat (replace_Z (get_or (publishedAt alarming_article) [])) = None"
    by (simp add: alarming_article_def get_or_def replace_Z_def example_fromisoformat_def)
  with relevance_score_in_unit_interval
    [of example_fromisoformat quiet_world alarming_article "''Goa''"]
  have "calculate_relevance example_fromisoformat quiet_world alarming_article ''Goa''
      = (min (keyword_score alarming_article ''Goa'') 1, quiet_world)"
    by blast
  with ks show ?thesis by simp
qed

section \<open>The alert aggregator\<close>

lemma sort_reverse_sorted: "sorted_wrt (\<lambda>a b. f b \<le> f a) (sort_reverse f xs)"
proof -
  have "sorted (map (\<lambda>x. - f x) (sort_key (\<lambda>x. - f x) xs))" by (rule sorted_sort_key)
  then show ?thesis by (simp add: sort_reverse_def sorted_map)
qed

lemma sort_reverse_stable:
  "filter (\<lambda>y. f y = k) (sort_reverse f xs) = filter (\<lambda>y. f y = k) xs"
proof -
  have "filter (\<lambda>y. - f y = - k) (sort_key (\<lambda>x. - f x) xs) = filter (\<lambda>y. - f y = - k) xs"
    by (rule sort_key_stable)
  then show ?thesis by (simp add: sort_reverse_def)
qed

lemma sort_reverse_nth:
  assumes "i < j" and "j < length (sort_reverse f xs)"
  shows "f (sort_reverse f xs ! j) \<le> f (sort_reverse f xs ! i)"
  using sort_reverse_sorted [of f xs] assms by (simp add: sorted_wrt_iff_nth_less)

lemma sort_reverse_length: "length (sort_reverse f xs) = length xs"
  by (simp add: sort_reverse_def)

text \<open>
  A write either fails, leaving the table as it was, or replaces the user's item, whose
  \<open>Data\<close> then holds the dictionary written.
\<close>

lemma save_user_data_alerts:
  "save_user_data db w uid d = (ok, w', db') \<Longrightarrow>
     (if shd (faults w) then \<not> ok \<and> db' = db
      else ok \<and> stored_alerts db' uid = current_alerts (ud_fields d))"
  by (auto simp: save_user_data_def stored_alerts_def next_fault_def utcnow_def Let_def
      split: if_splits prod.splits)

lemma handle_alerts_found:
  assumes "uid \<noteq> []" and "get_user_data db w uid = (Some ud, w1)"
    and "collect_alerts sv w1 ud uid = (emitted, w5)"
  shows "\<exists>body w' db'. handle_alerts sv w db uid = (Success body, w', db')
     \<and> body_alerts body = sort_reverse priority emitted
     \<and> (if shd (faults w5) then db' = db
         else stored_alerts db' uid = Some (body_alerts body))"
proof -
  let ?alerts = "sort_reverse priority emitted"
  obtain checked w6 where c: "utcnow w5 = (checked, w6)" by (cases "utcnow w5")
  have f6: "faults w6 = faults w5" using c by (auto simp: utcnow_def)
  let ?ud = "UserData ((ud_fields ud)\<lparr>last_alert_check := Some (wall checked),
       current_alerts := Some ?alerts\<rparr>) (ud_data ud)"
  obtain saved w7 db' where s: "save_user_data db w6 uid ?ud = (saved, w7, db')"
    by (cases "save_user_data db w6 uid ?ud")
  obtain now w8 where n: "utcnow w7 = (now, w8)" by (cases "utcnow w7")
  have "handle_alerts sv w db uid =
      (Success \<lparr>body_message = None, body_alerts = ?alerts, body_count = Some (length ?alerts),
         body_last_updated = Some (wall now)\<rparr>, w8, db')"
    using assms c s n by (simp add: handle_alerts_def Let_def)
  moreover have "if shd (faults w5) then db' = db else stored_alerts db' uid = Some ?alerts"
    using save_user_data_alerts [OF s] f6 by (simp split: if_splits)
  ultimately show ?thesis by simp
qed

lemma collect_alerts_order:
  assumes "check_flight_alerts (fromisoformat_impl sv) w1 (get_or (bookings (ud_fields ud)) [])
      = (flight_alerts, w2)"
    and "check_weather_alerts (weather_client sv) (providers sv) w2
      (get_or (current_itinerary (ud_fields ud)) empty_itinerary) = (weather_alerts, w3)"
    and "check_news_alerts (fromisoformat_impl sv) (news_client sv) (providers sv) w3
      (get_or (current_itinerary (ud_fields ud)) empty_itinerary) = (news_alerts, w4)"
    and "check_document_alerts (providers sv) w4 uid = (document_alerts, w5)"
  shows "collect_alerts sv w1 ud uid
      = (flight_alerts @ weather_alerts @ news_alerts @ document_alerts, w5)"
  using assms by (simp add: collect_alerts_def)

text \<open>
  C2.  When the store has data for the user, \<open>handle_alerts\<close> runs the flight, weather,
  news and document evaluators in that order on the user's bookings, current itinerary
  and id, and answers with the concatenation of their outputs sorted by priority,
  highest first: for all \<open>i < j\<close> the alert at \<open>i\<close> has a priority at least that at
  \<open>j\<close>; the alerts of any one priority stand in the order in which they were emitted;
  none is lost or added.  The list returned is the list persisted: unless the write to the
  store fails, the user's stored \<open>current_alerts\<close> after the call is exactly the list
  returned; when the write fails, the table is left as it was (and the list is returned
  all the same).
\<close>

theorem handle_alerts_sorted_stable:
  assumes "uid \<noteq> []" and "get_user_data db w uid = (Some ud, w1)"
    and "check_flight_alerts (fromisoformat_impl sv) w1 (get_or (bookings (ud_fields ud)) [])
      = (flight_alerts, w2)"
    and "check_weather_alerts (weather_client sv) (providers sv) w2
      (get_or (current_itinerary (ud_fields ud)) empty_itinerary) = (weather_alerts, w3)"
    and "check_news_alerts (fromisoformat_impl sv) (news_client sv) (providers sv) w3
      (get_or (current_itinerary (ud_fields ud)) empty_itinerary) = (news_alerts, w4)"
    and "check_document_alerts (providers sv) w4 uid = (document_alerts, w5)"
  shows "\<exists>body w' db'. handle_alerts sv w db uid = (Success body, w', db')
     \<and> (\<forall>i j. i < j \<and> j < length (body_alerts body)
           \<longrightarrow> priority (body_alerts body ! j) \<le> priority (body_alerts body ! i))
     \<and> (\<forall>p. filter (\<lambda>a. priority a = p) (body_alerts body)
              = filter (\<lambda>a. priority a = p)
                  (flight_alerts @ weather_alerts @ news_alerts @ document_alerts))
     \<and> length (body_alerts body)
         = length (flight_alerts @ weather_alerts @ news_alerts @ document_alerts)
     \<and> (if shd (faults w5) then db' = db
         else stored_alerts db' uid = Some (body_alerts body))"
proof -
  let ?emitted = "flight_alerts @ weather_alerts @ news_alerts @ document_alerts"
  note c = collect_alerts_order [OF assms(3-6)]
  from handle_alerts_found [OF assms(1,2) c] obtain body w' db' where
    h: "handle_alerts sv w db uid = (Success body, w', db')"
    and b: "body_alerts body = sort_reverse priority ?emitted"
    and st: "if shd (faults w5) then db' = db
             else stored_alerts db' uid = Some (body_alerts body)" by blast
  have "\<forall>i j. i < j \<and> j < length (body_alerts body)
      \<longrightarrow> priority (body_alerts body ! j) \<le> priority (body_alerts body ! i)"
    using sort_reverse_nth [of _ _ priority ?emitted] b by simp
  moreover have "\<forall>p. filter (\<lambda>a. priority a = p) (body_alerts body)
      = filter (\<lambda>a. priority a = p) ?emitted"
    using sort_reverse_stable [of priority _ ?emitted] b by simp
  moreover have "length (body_alerts body) = length ?emitted"
    using sort_reverse_length [of priority ?emitted] b by simp
  ultimately show ?thesis using h st by blast
qed

text \<open>
  The user with two flights leaving in 23 hours and a stormy day in Goa: the two check-in
  reminders (priority 3) are emitted first and the severe weather alert (priority 4) last;
  the answer has the weather alert in front and the two reminders in their order, and
  the table holds that list afterwards.
\<close>

theorem handle_alerts_sorted_stable_witness:
  "\<exists>body. returned (handle_alerts example_services quiet_world travellers_table ''u1'') = Some body
     \<and> length (body_alerts body) = 3
     \<and> priority (body_alerts body ! 2) \<le> priority (body_alerts body ! 0)
     \<and> map (\<lambda>a. (alert_type a, extra a)) (filter (\<lambda>a. priority a = 3) (body_alerts body))
         = [(''flight_checkin_reminder'', [(''booking_id'', Some ''b1'')]),
            (''flight_checkin_reminder'', [(''booking_id'', Some ''b2'')])]
     \<and> map alert_type (filter (\<lambda>a. priority a = 4) (body_alerts body)) = [''severe_weather'']
     \<and> stored_alerts
          (snd (snd (handle_alerts example_services quiet_world travellers_table ''u1''))) ''u1''
         = Some (body_alerts body)"
proof -
  have g: "get_user_data travellers_table quiet_world ''u1'' = (Some example_user, quiet_world)"
    by (simp add: get_user_data_def travellers_table_def quiet_world_def next_fault_def
        example_user_def empty_fields_def get_or_def Let_def)
  have fl: "\<exists>e1 e2. check_flight_alerts example_fromisoformat quiet_world example_bookings
        = ([e1, e2], quiet_world)
      \<and> alert_type e1 = ''flight_checkin_reminder'' \<and> priority e1 = 3
      \<and> extra e1 = [(''booking_id'', Some ''b1'')]
      \<and> alert_type e2 = ''flight_checkin_reminder'' \<and> priority e2 = 3
      \<and> extra e2 = [(''booking_id'', Some ''b2'')]"
    by (simp add: check_flight_alerts_def flight_booking_alerts_def example_bookings_def
        confirmed_flight_def example_fromisoformat_def quiet_world_def utcnow_def dt_sub_def
        hours_def Let_def get_or_def replace_Z_def)
  have we: "\<exists>e3. check_weather_alerts \<lparr>openweather_api_key = Some ''key'', weatherapi_key = None\<rparr>
        stormy_upstream quiet_world trip_to_goa = ([e3], quiet_world)
      \<and> alert_type e3 = ''severe_weather'' \<and> priority e3 = 4"
    using thunderstorm_is_severe
    by (simp add: check_weather_alerts_def trip_to_goa_def empty_itinerary_def get_or_def
        truthy_def get_forecast_def get_openweather_forecast_def stormy_upstream_def
        weather_day_alerts_def Let_def utcnow_def quiet_world_def)
  have ne: "check_news_alerts example_fromisoformat
        \<lparr>newsapi_key = None, guardian_api_key = Some ''key''\<rparr>
        stormy_upstream quiet_world trip_to_goa = ([], quiet_world)"
    by (simp add: check_news_alerts_def trip_to_goa_def empty_itinerary_def get_or_def truthy_def
        get_travel_news_def get_guardian_travel_news_def stormy_upstream_def Let_def)
  have dc: "check_document_alerts stormy_upstream quiet_world ''u1'' = ([], quiet_world)"
    by (simp add: check_document_alerts_def list_user_documents_def stormy_upstream_def)
  from fl obtain e1 e2 where
    f: "check_flight_alerts example_fromisoformat quiet_world example_bookings
        = ([e1, e2], quiet_world)"
    and e1: "alert_type e1 = ''flight_checkin_reminder''" "priority e1 = 3"
      "extra e1 = [(''booking_id'', Some ''b1'')]"
    and e2: "alert_type e2 = ''flight_checkin_reminder''" "priority e2 = 3"
      "extra e2 = [(''booking_id'', Some ''b2'')]" by blast
  from we obtain e3 where
    wt: "check_weather_alerts \<lparr>openweather_api_key = Some ''key'', weatherapi_key = None\<rparr>
        stormy_upstream quiet_world trip_to_goa = ([e3], quiet_world)"
    and e3: "alert_type e3 = ''severe_weather''" "priority e3 = 4" by blast
  have f': "check_flight_alerts (fromisoformat_impl example_services) quiet_world
        (get_or (bookings (ud_fields example_user)) []) = ([e1, e2], quiet_world)"
    using f by (simp add: example_services_def example_user_def empty_fields_def get_or_def)
  have wt': "check_weather_alerts (weather_client example_services)
        (providers example_services) quiet_world
        (get_or (current_itinerary (ud_fields example_user)) empty_itinerary)
        = ([e3], quiet_world)"
    using wt by (simp add: example_services_def example_user_def empty_fields_def get_or_def)
  have ne': "check_news_alerts (fromisoformat_impl example_services)
        (news_client example_services) (providers example_services) quiet_world
        (get_or (current_itinerary (ud_fields example_user)) empty_itinerary)
        = ([], quiet_world)"
    using ne by (simp add: example_services_def example_user_def empty_fields_def get_or_def)
  have dc': "check_document_alerts (providers example_services) quiet_world ''u1''
        = ([], quiet_world)"
    using dc by (simp add: example_services_def)
  have u: "''u1'' \<noteq> []" by simp
  from handle_alerts_sorted_stable [OF u g f' wt' ne' dc'] obtain body w' db' where
    h: "handle_alerts example_services quiet_world travellers_table ''u1''
        = (Success body, w', db')"
    and srt: "\<forall>i j. i < j \<and> j < length (body_alerts body)
        \<longrightarrow> priority (body_alerts body ! j) \<le> priority (body_alerts body ! i)"
    and stb: "\<forall>p. filter (\<lambda>a. priority a = p) (body_alerts body)
        = filter (\<lambda>a. priority a = p) ([e1, e2] @ [e3] @ [] @ [])"
    and len: "length (body_alerts body) = length ([e1, e2] @ [e3] @ [] @ [])"
    and sto: "if shd (faults quiet_world) then db' = travellers_table
              else stored_alerts db' ''u1'' = Some (body_alerts body)" by blast
  have "returned (handle_alerts example_services quiet_world travellers_table ''u1'') = Some body"
    using h by (simp add: returned_def)
  moreover have "length (body_alerts body) = 3" using len by simp
  moreover have "priority (body_alerts body ! 2) \<le> priority (body_alerts body ! 0)"
    using srt len by simp
  moreover have "filter (\<lambda>a. priority a = 3) (body_alerts body) = [e1, e2]"
    using stb e1 e2 e3 by simp
  moreover have "filter (\<lambda>a. priority a = 4) (body_alerts body) = [e3]"
    using stb e1 e2 e3 by simp
  moreover have "stored_alerts
      (snd (snd (handle_alerts example_services quiet_world travellers_table ''u1''))) ''u1''
      = Some (body_alerts body)"
    using sto h by (simp add: quiet_world_def)
  ultimately show ?thesis using e1 e2 e3 by simp
qed

section \<open>A user without data\<close>

lemma handle_alerts_no_data:
  assumes "uid \<noteq> []" and "get_user_data db w uid = (None, w1)"
  shows "handle_alerts sv w db uid =
     (Success \<lparr>body_message = Some ''No user data found'', body_alerts = [],
               body_count = None, body_last_updated = None\<rparr>, w1, db)"
  using assms by (simp add: handle_alerts_def)

lemma handle_alerts_empty_id: "handle_alerts sv w db [] = (Failure ''Missing user_id'' 400, w, db)"
  by (simp add: handle_alerts_def)

text \<open>
  C10.  For every user id for which the store lookup of \<open>handle_alerts\<close> returns no data
  (the lookup is made for a non-empty user id; an empty one is refused before it), the
  answer is the message "No user data found" with an empty alert list, and the table is
  left as it was, for that user and every other.  For the empty user id the table is left
  as it was, too.
\<close>

theorem handle_alerts_no_user_data:
  "(uid \<noteq> [] \<and> get_user_data db w uid = (None, w1) \<longrightarrow>
      handle_alerts sv w db uid =
        (Success \<lparr>body_message = Some ''No user data found'', body_alerts = [],
                  body_count = None, body_last_updated = None\<rparr>, w1, db))
   \<and> snd (snd (handle_alerts sv w db [])) = db"
  using handle_alerts_no_data [of uid db w w1 sv] handle_alerts_empty_id [of sv w db]
  by simp

text \<open>The table of travellers knows no user \<open>u2\<close>.\<close>

theorem handle_alerts_no_user_data_witness:
  "handle_alerts example_services quiet_world travellers_table ''u2'' =
     (Success \<lparr>body_message = Some ''No user data found'', body_alerts = [],
               body_count = None, body_last_updated = None\<rparr>, quiet_world, travellers_table)"
proof -
  have "get_user_data travellers_table quiet_world ''u2'' = (None, quiet_world)"
    by (simp add: get_user_data_def travellers_table_def quiet_world_def next_fault_def Let_def)
  with handle_alerts_no_user_data
    [of "''u2''" travellers_table quiet_world quiet_world example_services]
  show ?thesis by simp
qed

section \<open>Dismissing an alert\<close>



text \<open>
  The dictionary \<open>get_user_data\<close> hands out is built afresh from the item, with what was
  saved before under the key \<open>data\<close>; it has no key \<open>dismissed_alerts\<close> of its own.
\<close>

lemma dismissals_not_read_back:
  "get_user_data db w uid = (Some ud, w1) \<Longrightarrow> dismissed_alerts (ud_fields ud) = None"
  by (auto simp: get_user_data_def next_fault_def empty_fields_def Let_def
      split: if_splits option.splits)




section \<open>Custom alerts\<close>

lemma create_custom_alert_rejects:
  "\<not> truthy (req_user_id req) \<or> get_or (req_alert req) [] = [] \<Longrightarrow>
   create_custom_alert w db req = (Failure ''Missing user_id or alert data'' 400, w, db)"
  by (auto simp: create_custom_alert_def Let_def)

lemma create_custom_alert_accepts:
  assumes "truthy (req_user_id req)" and "get_or (req_alert req) [] \<noteq> []"
  shows "fst (create_custom_alert w db req) =
     (if shd (stl (faults w)) then Failure ''Failed to create alert'' 500
      else Success (''Custom alert created successfully'',
        \<lparr>ca_type = ''custom'',
         ca_priority = dict_get (get_or (req_alert req) []) ''priority'' (JNum 1),
         ca_title = dict_get (get_or (req_alert req) []) ''title'' (JStr ''Custom Alert''),
         ca_message = dict_get (get_or (req_alert req) []) ''message'' (JStr []),
         trigger_date = dict_get (get_or (req_alert req) []) ''trigger_date'' JNull,
         ca_action_required =
           dict_get (get_or (req_alert req) []) ''action_required'' (JBool False),
         ca_created_at = shd (clock w), user_created = True\<rparr>))"
  using assms
  by (simp add: create_custom_alert_def Let_def utcnow_def get_user_data_def next_fault_def
      save_user_data_def split: option.splits)

text \<open>
  C8 (as the code has it).  \<open>create_custom_alert\<close> rejects, with status 400 and without
  touching the store, every request that lacks a user id and every request whose alert
  specification is missing or empty.  Every other request is accepted, with or without a
  message: unless the write to the store fails, the answer is the created alert, in which
  the priority is 1, \<open>action_required\<close> is false and the message is the empty string
  wherever the caller supplied none.
\<close>

theorem create_custom_alert_validation:
  "(\<not> truthy (req_user_id req) \<or> get_or (req_alert req) [] = [] \<longrightarrow>
      create_custom_alert w db req = (Failure ''Missing user_id or alert data'' 400, w, db))
   \<and> (truthy (req_user_id req) \<and> get_or (req_alert req) [] \<noteq> [] \<longrightarrow>
      fst (create_custom_alert w db req) =
        (if shd (stl (faults w)) then Failure ''Failed to create alert'' 500
         else Success (''Custom alert created successfully'',
           \<lparr>ca_type = ''custom'',
            ca_priority = dict_get (get_or (req_alert req) []) ''priority'' (JNum 1),
            ca_title = dict_get (get_or (req_alert req) []) ''title'' (JStr ''Custom Alert''),
            ca_message = dict_get (get_or (req_alert req) []) ''message'' (JStr []),
            trigger_date = dict_get (get_or (req_alert req) []) ''trigger_date'' JNull,
            ca_action_required =
              dict_get (get_or (req_alert req) []) ''action_required'' (JBool False),
            ca_created_at = shd (clock w), user_created = True\<rparr>)))"
  using create_custom_alert_rejects [of req w db] create_custom_alert_accepts [of req w db]
  by blast

text \<open>
  A request without a user id is rejected; a request with only a message is accepted with
  priority 1 and no action required.
\<close>

theorem create_custom_alert_validation_witness:
  "create_custom_alert quiet_world travellers_table
      \<lparr>req_user_id = None, req_alert = Some [(''message'', JStr ''Call the hotel'')],
       req_alert_id = None\<rparr>
     = (Failure ''Missing user_id or alert data'' 400, quiet_world, travellers_table)
   \<and> fst (create_custom_alert quiet_world travellers_table
      \<lparr>req_user_id = Some ''u1'', req_alert = Some [(''message'', JStr ''Call the hotel'')],
       req_alert_id = None\<rparr>)
     = Success (''Custom alert created successfully'',
         \<lparr>ca_type = ''custom'', ca_priority = JNum 1, ca_title = JStr ''Custom Alert'',
          ca_message = JStr ''Call the hotel'', trigger_date = JNull,
          ca_action_required = JBool False, ca_created_at = 0, user_created = True\<rparr>)"
  using create_custom_alert_validation
    [of "\<lparr>req_user_id = None, req_alert = Some [(''message'', JStr ''Call the hotel'')],
          req_alert_id = None\<rparr>" quiet_world travellers_table]
    create_custom_alert_validation
    [of "\<lparr>req_user_id = Some ''u1'', req_alert = Some [(''message'', JStr ''Call the hotel'')],
          req_alert_id = None\<rparr>" quiet_world travellers_table]
  by (simp add: truthy_def get_or_def dict_get_def quiet_world_def)

text \<open>
  A request whose alert specification has a title and no message is accepted; the alert
  is created with the empty message.
\<close>

theorem create_custom_alert_without_message_counterexample:
  "map_of [(''title'', JStr ''Buy sunscreen'')] ''message'' = None
   \<and> fst (create_custom_alert quiet_world travellers_table
      \<lparr>req_user_id = Some ''u1'', req_alert = Some [(''title'', JStr ''Buy sunscreen'')],
       req_alert_id = None\<rparr>)
     = Success (''Custom alert created successfully'',
         \<lparr>ca_type = ''custom'', ca_priority = JNum 1, ca_title = JStr ''Buy sunscreen'',
          ca_message = JStr [], trigger_date = JNull,
          ca_action_required = JBool False, ca_created_at = 0, user_created = True\<rparr>)"
  by (simp add: create_custom_alert_def Let_def utcnow_def get_user_data_def next_fault_def
      save_user_data_def truthy_def get_or_def dict_get_def quiet_world_def
      travellers_table_def)

section \<open>The adapters when a provider fails\<close>

lemma get_forecast_unconfigured:
  "\<not> truthy (openweather_api_key api) \<Longrightarrow> \<not> truthy (weatherapi_key api) \<Longrightarrow>
   \<exists>r w'. get_forecast api up w loc n = (Some r, w') \<and> weather_source r = ''mock''"
  by (simp add: get_forecast_def get_mock_forecast_def Let_def split: prod.splits)

lemma get_travel_news_unconfigured:
  "\<not> truthy (newsapi_key api) \<Longrightarrow> \<not> truthy (guardian_api_key api) \<Longrightarrow>
   \<exists>r. get_travel_news f api up w loc n = (Some r, w) \<and> news_source r = ''mock''"
  by (simp add: get_travel_news_def get_mock_travel_news_def Let_def)

lemma get_forecast_live_failure:
  "truthy (openweather_api_key api) \<Longrightarrow> openweather_forecast up loc n = Inl e \<Longrightarrow>
   get_forecast api up w loc n = (None, w)"
  by (simp add: get_forecast_def get_openweather_forecast_def)

lemma get_travel_news_live_failure:
  "truthy (newsapi_key api) \<Longrightarrow> newsapi_everything up loc n = Inl e \<Longrightarrow>
   get_travel_news f api up w loc n = (None, w)"
  by (simp add: get_travel_news_def get_newsapi_travel_news_def)

text \<open>
  C1, at a failing input.  With credentials configured and the provider out of reach,
  \<open>get_forecast\<close> and \<open>get_travel_news\<close> return \<open>None\<close>: the provider method has
  caught the error itself, so the mock fallback in the \<open>except\<close> clause of the entry
  point is not taken and no result tagged with a source comes back.
\<close>

theorem adapters_return_none_when_provider_fails:
  "get_forecast \<lparr>openweather_api_key = Some ''key'', weatherapi_key = None\<rparr>
      unreachable_upstream quiet_world ''Goa'' 5 = (None, quiet_world)
   \<and> get_travel_news example_fromisoformat
      \<lparr>newsapi_key = Some ''key'', guardian_api_key = None\<rparr>
      unreachable_upstream quiet_world ''Goa'' 7 = (None, quiet_world)"
  by (simp add: get_forecast_def get_travel_news_def truthy_def get_openweather_forecast_def
      get_newsapi_travel_news_def unreachable_upstream_def)


end
